theory Spec2Isabelle
  imports Complex_Main
begin

section \<open>Tensors\<close>

text \<open>
  A tensor is its shape and its elements in row-major order, as a contiguous torch
  tensor stores them. Floating-point elements are idealised as \<^typ>\<open>real\<close>; integer
  tensors (token ids, predictions) hold \<^typ>\<open>int\<close>. The number of elements is the
  product of the shape, so a rank-0 tensor has one element.
\<close>

record 'a tensor =
  shape :: "nat list"
  data :: "'a list"

definition numel :: "'a tensor \<Rightarrow> nat" where
  "numel x = prod_list (shape x)"

definition wf_tensor :: "'a tensor \<Rightarrow> bool" where
  "wf_tensor x \<longleftrightarrow> length (data x) = numel x"

text \<open>Row \<open>r\<close> of the elements seen as rows of \<open>n\<close> entries (the last axis).\<close>

definition row_of :: "nat \<Rightarrow> 'a list \<Rightarrow> nat \<Rightarrow> 'a list" where
  "row_of n xs r = take n (drop (r * n) xs)"

section \<open>Errors\<close>

text \<open>
  Every exception the classifier can meet is a value. The constructors name the
  Python exception class and the place that raises it:
  \<^item> \<open>ValueError_unknown_strategy s\<close>: \<^verbatim>\<open>ValueError('Unknown classification strategy: s')\<close> of \<^verbatim>\<open>forward\<close>;
  \<^item> \<open>ValueError_logit_layer_kwargs\<close>: the \<^verbatim>\<open>ValueError\<close> of \<^verbatim>\<open>__init__\<close> for keyword arguments that are not an \<^verbatim>\<open>HParams\<close>;
  \<^item> \<open>ValueError_dropout_probability\<close>: \<^verbatim>\<open>nn.Dropout\<close> given a rate outside \<open>[0, 1]\<close>;
  \<^item> \<open>TypeError_NoneType_operand\<close>: arithmetic on \<^verbatim>\<open>max_seq_length = None\<close>;
  \<^item> \<open>TypeError_unexpected_keyword k\<close>: \<^verbatim>\<open>nn.Linear\<close> given a keyword it does not have;
  \<^item> \<open>NameError_logit_dim\<close>: the \<^verbatim>\<open>NameError\<close> raised by \<^verbatim>\<open>output_size\<close>;
  \<^item> \<open>UnboundLocalError_logit_dim\<close>: \<^verbatim>\<open>return logit_dim\<close> with \<^verbatim>\<open>logit_dim\<close> never assigned;
  \<^item> \<open>IndexError_shape\<close>: \<^verbatim>\<open>inputs.shape[1]\<close> on a tensor of rank below two;
  \<^item> \<open>RuntimeError_*\<close>: the shape checks of the tensor library.
\<close>

datatype error =
    ValueError_unknown_strategy string
  | ValueError_logit_layer_kwargs
  | ValueError_dropout_probability
  | TypeError_NoneType_operand
  | TypeError_unexpected_keyword string
  | NameError_logit_dim
  | UnboundLocalError_logit_dim
  | IndexError_shape
  | RuntimeError_negative_dimension
  | RuntimeError_padding
  | RuntimeError_view
  | RuntimeError_size_mismatch
  | RuntimeError_empty_reduction

section \<open>Tensor operations used by the classifier\<close>

text \<open>\<^verbatim>\<open>torch.flatten(x)\<close>: one axis holding every element.\<close>

definition flatten :: "'a tensor \<Rightarrow> 'a tensor" where
  "flatten x = \<lparr>shape = [numel x], data = data x\<rparr>"

text \<open>\<^verbatim>\<open>torch.squeeze(x, -1)\<close>: the last axis is removed when its size is one.\<close>

definition squeeze_last :: "'a tensor \<Rightarrow> 'a tensor" where
  "squeeze_last x =
     (if shape x \<noteq> [] \<and> last (shape x) = 1
      then \<lparr>shape = butlast (shape x), data = data x\<rparr> else x)"

text \<open>\<^verbatim>\<open>(x > 0).long()\<close>: one where the element is positive, zero elsewhere.\<close>

definition gt0_long :: "real tensor \<Rightarrow> int tensor" where
  "gt0_long x = \<lparr>shape = shape x, data = map (\<lambda>v. if v > 0 then 1 else 0) (data x)\<rparr>"

text \<open>
  \<^verbatim>\<open>torch.argmax(x, dim=-1)\<close>. Within a row the index of the first maximal entry
  is returned; \<open>argmax_from bi bv i ys\<close> scans the rest \<open>ys\<close> of a row from index
  \<open>i\<close> with the best index \<open>bi\<close> and best value \<open>bv\<close> so far.
\<close>

fun argmax_from :: "nat \<Rightarrow> real \<Rightarrow> nat \<Rightarrow> real list \<Rightarrow> nat" where
  "argmax_from bi bv i [] = bi"
| "argmax_from bi bv i (y # ys) =
     (if bv < y then argmax_from i y (Suc i) ys else argmax_from bi bv (Suc i) ys)"

definition argmax_row :: "real list \<Rightarrow> nat" where
  "argmax_row xs = (case xs of [] \<Rightarrow> 0 | x # ys \<Rightarrow> argmax_from 0 x 1 ys)"

definition argmax_last :: "real tensor \<Rightarrow> error + int tensor" where
  "argmax_last x =
     (if shape x = [] then Inr \<lparr>shape = [], data = [0]\<rparr>
      else if last (shape x) = 0 then Inl RuntimeError_empty_reduction
      else Inr \<lparr>shape = butlast (shape x),
                data = map (\<lambda>r. int (argmax_row (row_of (last (shape x)) (data x) r)))
                           [0..<prod_list (butlast (shape x))]\<rparr>)"

text \<open>
  \<^verbatim>\<open>F.pad(x, [0, 0, 0, d, 0, 0])\<close>: constant padding of the last three axes, here
  only at the end of the second-to-last (time) axis. A positive \<open>d\<close> appends \<open>d\<close>
  zero steps to every sequence; a negative \<open>d\<close> removes \<open>-d\<close> steps from the end
  (the library narrows the axis). The call fails on a tensor of rank below three
  and when the new size of the axis would be negative.
\<close>

definition pad_time :: "real tensor \<Rightarrow> int \<Rightarrow> error + real tensor" where
  "pad_time x d =
     (case rev (shape x) of
        f # t # b # lead \<Rightarrow>
          if int t + d < 0 then Inl RuntimeError_padding
          else
            let t' = nat (int t + d) in
            Inr \<lparr>shape = rev lead @ [b, t', f],
                 data = concat (map (\<lambda>r. take (t' * f)
                                          (row_of (t * f) (data x) r @ replicate (nat d * f) 0))
                                    [0..<prod_list (rev lead) * b])\<rparr>
      | _ \<Rightarrow> Inl RuntimeError_padding)"

text \<open>
  \<^verbatim>\<open>x.view(-1, d)\<close>: two axes, the second of size \<open>d\<close>, the first inferred. It
  fails when \<open>d\<close> is not positive or does not divide the number of elements.
\<close>

definition view2 :: "'a tensor \<Rightarrow> int \<Rightarrow> error + 'a tensor" where
  "view2 x d =
     (if d \<le> 0 then Inl RuntimeError_view
      else if numel x mod nat d \<noteq> 0 then Inl RuntimeError_view
      else Inr \<lparr>shape = [numel x div nat d, nat d], data = data x\<rparr>)"

section \<open>Layers\<close>

subsection \<open>Dropout\<close>

record dropout_module =
  dropout_p :: real

text \<open>\<^verbatim>\<open>nn.Dropout(p)\<close> refuses a rate outside \<open>[0, 1]\<close>.\<close>

definition Dropout :: "real \<Rightarrow> error + dropout_module" where
  "Dropout p = (if p < 0 \<or> 1 < p then Inl ValueError_dropout_probability
                else Inr \<lparr>dropout_p = p\<rparr>)"

text \<open>
  Applying the layer. Outside training mode, with rate zero, or on an empty
  tensor the input is returned. With rate one every element is multiplied by
  zero. Otherwise element \<open>i\<close> is kept and scaled by \<open>1 / (1 - p)\<close> when the
  Bernoulli draw \<open>noise i\<close> of this call says so, and zeroed when not. The draws
  come from the random generator and differ from call to call.
\<close>

definition dropout_forward ::
  "dropout_module \<Rightarrow> bool \<Rightarrow> (nat \<Rightarrow> bool) \<Rightarrow> real tensor \<Rightarrow> real tensor" where
  "dropout_forward d train noise x =
     (if dropout_p d = 0 \<or> \<not> train \<or> numel x = 0 then x
      else if dropout_p d = 1 then \<lparr>shape = shape x, data = map (\<lambda>v. v * 0) (data x)\<rparr>
      else \<lparr>shape = shape x,
            data = map (\<lambda>(i, v). v * ((if noise i then 1 else 0) / (1 - dropout_p d)))
                       (enumerate 0 (data x))\<rparr>)"

subsection \<open>Linear\<close>

record linear_module =
  in_features :: nat
  out_features :: nat
  weight :: "real tensor"
  bias :: "real tensor option"

text \<open>
  \<^verbatim>\<open>nn.Linear(in_features, out_features, **kwargs)\<close>. The only keyword the
  constructor has beside the two sizes is \<^verbatim>\<open>bias\<close> (default true). The weight
  has shape \<open>[out_features, in_features]\<close> and the bias \<open>[out_features]\<close>; their
  initial values \<open>w0\<close>, \<open>b0\<close> are what the random initialiser drew, by flat index.
  A negative size is refused.
\<close>

definition Linear ::
  "int \<Rightarrow> int \<Rightarrow> (string \<times> bool) list \<Rightarrow> (nat \<Rightarrow> real) \<Rightarrow> (nat \<Rightarrow> real) \<Rightarrow> error + linear_module" where
  "Linear n_in n_out kwargs w0 b0 =
     (case filter (\<lambda>k. k \<noteq> ''bias'') (map fst kwargs) of
        k # _ \<Rightarrow> Inl (TypeError_unexpected_keyword k)
      | [] \<Rightarrow>
          if n_in < 0 \<or> n_out < 0 then Inl RuntimeError_negative_dimension
          else Inr \<lparr>in_features = nat n_in, out_features = nat n_out,
                    weight = \<lparr>shape = [nat n_out, nat n_in],
                              data = map w0 [0..<nat n_out * nat n_in]\<rparr>,
                    bias = (case map_of kwargs ''bias'' of
                              Some False \<Rightarrow> None
                            | _ \<Rightarrow> Some \<lparr>shape = [nat n_out], data = map b0 [0..<nat n_out]\<rparr>)\<rparr>)"

text \<open>One output row: \<open>y\<^sub>j = (\<Sum>i. x\<^sub>i * W\<^sub>j\<^sub>i) + b\<^sub>j\<close>.\<close>

definition linear_row :: "linear_module \<Rightarrow> real list \<Rightarrow> real list" where
  "linear_row l row =
     map (\<lambda>j. sum_list (map (\<lambda>i. row ! i * data (weight l) ! (j * in_features l + i))
                             [0..<in_features l])
              + (case bias l of None \<Rightarrow> 0 | Some b \<Rightarrow> data b ! j))
         [0..<out_features l]"

text \<open>
  Applying the layer maps every row of the last axis; the last axis must have
  size \<open>in_features\<close>.
\<close>

definition linear_forward :: "linear_module \<Rightarrow> real tensor \<Rightarrow> error + real tensor" where
  "linear_forward l x =
     (if shape x = [] \<or> last (shape x) \<noteq> in_features l then Inl RuntimeError_size_mismatch
      else Inr \<lparr>shape = butlast (shape x) @ [out_features l],
                data = concat (map (\<lambda>r. linear_row l (row_of (in_features l) (data x) r))
                                   [0..<prod_list (butlast (shape x))])\<rparr>)"

section \<open>The encoder\<close>

text \<open>
  The BERT encoder is an external collaborator. The classifier uses its
  \<^verbatim>\<open>output_size\<close> property and calls it on the token ids, the optional sequence
  lengths and the optional segment ids; it returns the per-token outputs and the
  pooled output.
\<close>

record encoder_module =
  enc_output_size :: int
  encode :: "int tensor \<Rightarrow> int tensor option \<Rightarrow> int tensor option \<Rightarrow> real tensor \<times> real tensor"

text \<open>
  What the classifier relies on: for token ids of shape \<open>[B, T]\<close> the per-token
  outputs have shape \<open>[B, T, F]\<close> and the pooled output \<open>[B, F]\<close>, where \<open>F\<close> is the
  encoder's output size.
\<close>

definition encoder_contract ::
  "encoder_module \<Rightarrow> int tensor \<Rightarrow> int tensor option \<Rightarrow> int tensor option \<Rightarrow> nat \<Rightarrow> nat \<Rightarrow> nat \<Rightarrow> bool" where
  "encoder_contract enc inputs sequence_length segment_ids B T F \<longleftrightarrow>
     shape inputs = [B, T] \<and> enc_output_size enc = int F \<and>
     shape (fst (encode enc inputs sequence_length segment_ids)) = [B, T, F] \<and>
     wf_tensor (fst (encode enc inputs sequence_length segment_ids)) \<and>
     shape (snd (encode enc inputs sequence_length segment_ids)) = [B, F] \<and>
     wf_tensor (snd (encode enc inputs sequence_length segment_ids))"

section \<open>The classifier\<close>

subsection \<open>Hyperparameters\<close>

text \<open>
  \<^verbatim>\<open>logit_layer_kwargs\<close> is \<^verbatim>\<open>None\<close>, an \<^verbatim>\<open>HParams\<close> (a dictionary of keyword
  arguments), or some other value.
\<close>

datatype logit_kwargs = KwNone | KwHParams "(string \<times> bool) list" | KwOther

record hparams =
  num_classes :: int
  logit_layer_kwargs :: logit_kwargs
  clas_strategy :: string
  max_seq_length :: "int option"
  dropout :: real
  encoder_dim :: int

text \<open>The defaults of \<^verbatim>\<open>default_hparams\<close>; \<open>encoder_dim\<close> is \<^verbatim>\<open>hparams.encoder.dim\<close>, 768 for BERT.\<close>

definition default_hparams :: hparams where
  "default_hparams =
     \<lparr>num_classes = 2, logit_layer_kwargs = KwNone, clas_strategy = ''cls_time'',
      max_seq_length = None, dropout = 1 / 10, encoder_dim = 768\<rparr>"

subsection \<open>The instance\<close>

record bert_classifier =
  self_hparams :: hparams
  self_encoder :: encoder_module
  self_dropout_layer :: dropout_module
  self_num_classes :: int
  self_logits_layer :: "linear_module option"
  is_binary :: bool
  training :: bool

text \<open>
  \<^verbatim>\<open>__init__\<close>. The encoder arrives constructed; \<open>w0\<close> and \<open>b0\<close> are the initial
  values of the classification layer. A new module is in training mode.
\<close>

definition new_logits_layer ::
  "hparams \<Rightarrow> encoder_module \<Rightarrow> (string \<times> bool) list \<Rightarrow> (nat \<Rightarrow> real) \<Rightarrow> (nat \<Rightarrow> real)
     \<Rightarrow> error + linear_module" where
  "new_logits_layer hp enc logit_kwargs w0 b0 =
     (if clas_strategy hp = ''all_time'' then
        (case max_seq_length hp of
           None \<Rightarrow> Inl TypeError_NoneType_operand
         | Some m \<Rightarrow> Linear (enc_output_size enc * m) (num_classes hp) logit_kwargs w0 b0)
      else Linear (enc_output_size enc) (num_classes hp) logit_kwargs w0 b0)"

definition logits_layer_of ::
  "hparams \<Rightarrow> encoder_module \<Rightarrow> (nat \<Rightarrow> real) \<Rightarrow> (nat \<Rightarrow> real) \<Rightarrow> error + linear_module option" where
  "logits_layer_of hp enc w0 b0 =
     (if num_classes hp \<le> 0 then Inr None
      else
        (case (case logit_layer_kwargs hp of
                 KwNone \<Rightarrow> Inr []
               | KwHParams d \<Rightarrow> Inr d
               | KwOther \<Rightarrow> Inl ValueError_logit_layer_kwargs) of
           Inl e \<Rightarrow> Inl e
         | Inr logit_kwargs \<Rightarrow>
             (case new_logits_layer hp enc logit_kwargs w0 b0 of
                Inl e \<Rightarrow> Inl e
              | Inr layer \<Rightarrow> Inr (Some layer))))"

definition init ::
  "hparams \<Rightarrow> encoder_module \<Rightarrow> (nat \<Rightarrow> real) \<Rightarrow> (nat \<Rightarrow> real) \<Rightarrow> error + bert_classifier" where
  "init hp enc w0 b0 =
     (case Dropout (dropout hp) of
        Inl e \<Rightarrow> Inl e
      | Inr dl \<Rightarrow>
          (case logits_layer_of hp enc w0 b0 of
             Inl e \<Rightarrow> Inl e
           | Inr ll \<Rightarrow>
               Inr \<lparr>self_hparams = hp, self_encoder = enc, self_dropout_layer = dl,
                    self_num_classes = num_classes hp, self_logits_layer = ll,
                    is_binary = (num_classes hp = 1 \<or> (num_classes hp \<le> 0 \<and> encoder_dim hp = 1)),
                    training = True\<rparr>))"

subsection \<open>forward\<close>

text \<open>
  The source of the logits, chosen by the strategy (\<^verbatim>\<open># Compute logits\<close>). In
  \<^verbatim>\<open>max_seq_length - inputs.shape[1]\<close> both operands are evaluated before the
  subtraction, so token ids of rank below two raise the \<^verbatim>\<open>IndexError\<close> whether or
  not \<^verbatim>\<open>max_seq_length\<close> is set.
\<close>

definition logits_source ::
  "bert_classifier \<Rightarrow> string \<Rightarrow> int tensor \<Rightarrow> real tensor \<Rightarrow> real tensor \<Rightarrow> error + real tensor" where
  "logits_source self strategy inputs enc_outputs pooled_output =
     (if strategy = ''time_wise'' then Inr enc_outputs
      else if strategy = ''cls_time'' then Inr pooled_output
      else if strategy = ''all_time'' then
        (if length (shape inputs) < 2 then Inl IndexError_shape
         else
           (case max_seq_length (self_hparams self) of
              None \<Rightarrow> Inl TypeError_NoneType_operand
            | Some m \<Rightarrow>
                let length_diff = m - int (shape inputs ! 1) in
                (case pad_time enc_outputs length_diff of
                   Inl e \<Rightarrow> Inl e
                 | Inr logit_input \<Rightarrow>
                     let logit_input_dim = enc_output_size (self_encoder self) * m in
                     view2 logit_input logit_input_dim)))
      else Inl (ValueError_unknown_strategy strategy))"

text \<open>Dropout and the classification layer, when there is one.\<close>

definition apply_logits_layer ::
  "bert_classifier \<Rightarrow> (nat \<Rightarrow> bool) \<Rightarrow> real tensor \<Rightarrow> error + real tensor" where
  "apply_logits_layer self noise logits =
     (case self_logits_layer self of
        None \<Rightarrow> Inr logits
      | Some layer \<Rightarrow>
          linear_forward layer
            (dropout_forward (self_dropout_layer self) (training self) noise logits))"

text \<open>The predictions (\<^verbatim>\<open># Compute predictions\<close>); the result is \<open>(logits, preds)\<close>.\<close>

definition compute_preds ::
  "string \<Rightarrow> bool \<Rightarrow> real tensor \<Rightarrow> error + (real tensor \<times> int tensor)" where
  "compute_preds strategy binary logits =
     (if strategy = ''time_wise'' then
        (if binary then
           let logits = squeeze_last logits in Inr (logits, gt0_long logits)
         else
           (case argmax_last logits of
              Inl e \<Rightarrow> Inl e
            | Inr preds \<Rightarrow> Inr (logits, preds)))
      else
        (if binary then
           let preds = gt0_long logits; logits = flatten logits in
           Inr (logits, flatten preds)
         else
           (case argmax_last logits of
              Inl e \<Rightarrow> Inl e
            | Inr preds \<Rightarrow> Inr (logits, flatten preds))))"

definition forward ::
  "bert_classifier \<Rightarrow> (nat \<Rightarrow> bool) \<Rightarrow> int tensor \<Rightarrow> int tensor option \<Rightarrow> int tensor option
     \<Rightarrow> error + (real tensor \<times> int tensor)" where
  "forward self noise inputs sequence_length segment_ids =
     (case encode (self_encoder self) inputs sequence_length segment_ids of
        (enc_outputs, pooled_output) \<Rightarrow>
          let strategy = clas_strategy (self_hparams self) in
          (case logits_source self strategy inputs enc_outputs pooled_output of
             Inl e \<Rightarrow> Inl e
           | Inr logits \<Rightarrow>
               (case apply_logits_layer self noise logits of
                  Inl e \<Rightarrow> Inl e
                | Inr logits \<Rightarrow> compute_preds strategy (is_binary self) logits)))"

subsection \<open>output_size\<close>

definition output_size :: "bert_classifier \<Rightarrow> error + int" where
  "output_size self =
     (let clas_strategy = clas_strategy (self_hparams self) in
      if num_classes (self_hparams self) < 1 then Inl NameError_logit_dim
      else if clas_strategy = ''cls_time'' \<or> clas_strategy = ''all_time'' then
        (if num_classes (self_hparams self) > 1 then Inr (num_classes (self_hparams self))
         else if num_classes (self_hparams self) = 1 then Inr 1
         else Inl UnboundLocalError_logit_dim)
      else if clas_strategy = ''time_wise'' then
        (if num_classes (self_hparams self) > 1 then Inr (num_classes (self_hparams self))
         else if num_classes (self_hparams self) = 1 then Inr 1
         else Inl UnboundLocalError_logit_dim)
      else Inl UnboundLocalError_logit_dim)"

subsection \<open>The life of an instance\<close>

text \<open>
  After construction an instance is called (\<^verbatim>\<open>forward\<close>, which assigns no
  attribute) or switched between training and evaluation mode
  (\<^verbatim>\<open>train(mode)\<close>, \<^verbatim>\<open>eval()\<close>, which set \<^verbatim>\<open>training\<close>). \<open>step\<close> gives the instance
  after one such event.
\<close>

datatype event =
    Forward "nat \<Rightarrow> bool" "int tensor" "int tensor option" "int tensor option"
  | Train bool

fun step :: "bert_classifier \<Rightarrow> event \<Rightarrow> bert_classifier" where
  "step self (Forward noise inputs sequence_length segment_ids) = self"
| "step self (Train mode) = self\<lparr>training := mode\<rparr>"

definition run :: "bert_classifier \<Rightarrow> event list \<Rightarrow> bert_classifier" where
  "run self evs = foldl step self evs"

text \<open>
  A whole script: construct an instance, let the events happen, then call it.
\<close>

definition construct_and_call ::
  "hparams \<Rightarrow> encoder_module \<Rightarrow> (nat \<Rightarrow> real) \<Rightarrow> (nat \<Rightarrow> real) \<Rightarrow> event list \<Rightarrow>
   (nat \<Rightarrow> bool) \<Rightarrow> int tensor \<Rightarrow> int tensor option \<Rightarrow> int tensor option
     \<Rightarrow> error + (real tensor \<times> int tensor)" where
  "construct_and_call hp enc w0 b0 evs noise inputs sequence_length segment_ids =
     (case init hp enc w0 b0 of
        Inl e \<Rightarrow> Inl e
      | Inr self \<Rightarrow> forward (run self evs) noise inputs sequence_length segment_ids)"

section \<open>Specification predicates\<close>

text \<open>
  \<open>is_argmax_of preds logits\<close>: the predictions are the indices of the maximal
  logits along the last (class) axis. There is one prediction for every row of
  the class axis; it is an index into the row, no entry of the row is greater
  than the entry it points to, and every entry before it is smaller.
\<close>

definition is_argmax_of :: "int tensor \<Rightarrow> real tensor \<Rightarrow> bool" where
  "is_argmax_of preds logits \<longleftrightarrow>
     shape logits \<noteq> [] \<and> 0 < last (shape logits) \<and>
     length (data preds) = prod_list (butlast (shape logits)) \<and>
     list_all (\<lambda>r. let row = row_of (last (shape logits)) (data logits) r; k = data preds ! r in
                 0 \<le> k \<and> nat k < last (shape logits) \<and>
                 list_all (\<lambda>j. row ! j \<le> row ! nat k) [0..<last (shape logits)] \<and>
                 list_all (\<lambda>j. row ! j < row ! nat k) [0..<nat k])
              [0..<prod_list (butlast (shape logits))]"

text \<open>
  \<open>is_threshold_of preds logits\<close>: the predictions have the shape of the logits
  and are one where the logit is positive and zero elsewhere.
\<close>

definition is_threshold_of :: "int tensor \<Rightarrow> real tensor \<Rightarrow> bool" where
  "is_threshold_of preds logits \<longleftrightarrow>
     shape preds = shape logits \<and> length (data preds) = length (data logits) \<and>
     list_all (\<lambda>i. data preds ! i = (if 0 < data logits ! i then 1 else 0))
              [0..<length (data logits)]"

section \<open>A concrete encoder and concrete inputs\<close>

text \<open>
  A small encoder with feature size two: token \<open>v\<close> is encoded as \<open>[v, 1 - v]\<close>,
  and the pooled output of a sequence is the encoding of its first token.
\<close>

definition example_token :: "int \<Rightarrow> real list" where
  "example_token v = [real_of_int v, 1 - real_of_int v]"

definition example_encoder :: encoder_module where
  "example_encoder =
     \<lparr>enc_output_size = 2,
      encode = (\<lambda>inputs sequence_length segment_ids.
        (\<lparr>shape = shape inputs @ [2], data = concat (map example_token (data inputs))\<rparr>,
         \<lparr>shape = [hd (shape inputs), 2],
          data = concat (map (\<lambda>r. case row_of (shape inputs ! 1) (data inputs) r of
                                     [] \<Rightarrow> [0, 0] | v # _ \<Rightarrow> example_token v)
                             [0..<hd (shape inputs)])\<rparr>))\<rparr>"


text \<open>One sequence of two tokens.\<close>

definition example_inputs :: "int tensor" where
  "example_inputs = \<lparr>shape = [1, 2], data = [3, - 1]\<rparr>"

text \<open>Token ids of rank one, without a time axis.\<close>

definition example_inputs_rank1 :: "int tensor" where
  "example_inputs_rank1 = \<lparr>shape = [2], data = [3, - 1]\<rparr>"

text \<open>Initial weights \<open>0, 1, 2, \<dots>\<close> by flat index, and a zero bias.\<close>

definition example_w0 :: "nat \<Rightarrow> real" where
  "example_w0 k = real k"

definition example_b0 :: "nat \<Rightarrow> real" where
  "example_b0 k = 0"

text \<open>Two outcomes of the dropout draws of a call: every element kept, and none.\<close>

definition keep_all :: "nat \<Rightarrow> bool" where
  "keep_all i = True"

definition drop_all :: "nat \<Rightarrow> bool" where
  "drop_all i = False"

section \<open>Properties of the tensor operations\<close>

lemma argmax_from_spec:
  "length pre = i \<Longrightarrow> bi < i \<Longrightarrow> pre ! bi = bv \<Longrightarrow> (\<forall>j<i. pre ! j \<le> bv) \<Longrightarrow> (\<forall>j<bi. pre ! j < bv) \<Longrightarrow>
   argmax_from bi bv i ys < length (pre @ ys) \<and>
   (\<forall>j<length (pre @ ys). (pre @ ys) ! j \<le> (pre @ ys) ! argmax_from bi bv i ys) \<and>
   (\<forall>j<argmax_from bi bv i ys. (pre @ ys) ! j < (pre @ ys) ! argmax_from bi bv i ys)"
proof (induction ys arbitrary: pre i bi bv)
  case Nil
  then show ?case by simp
next
  case (Cons y ys)
  show ?case
  proof (cases "bv < y")
    case True
    have a: "length (pre @ [y]) = Suc i" using Cons.prems by simp
    have b: "i < Suc i" by simp
    have c: "(pre @ [y]) ! i = y" using Cons.prems by (simp add: nth_append)
    have d: "\<forall>j<Suc i. (pre @ [y]) ! j \<le> y"
      using Cons.prems True by (auto simp: nth_append less_Suc_eq intro: less_imp_le order_trans)
    have e: "\<forall>j<i. (pre @ [y]) ! j < y"
      using Cons.prems True by (auto simp: nth_append intro: le_less_trans)
    from Cons.IH[OF a b c d e] True show ?thesis by simp
  next
    case False
    have a: "length (pre @ [y]) = Suc i" using Cons.prems by simp
    have b: "bi < Suc i" using Cons.prems by simp
    have c: "(pre @ [y]) ! bi = bv" using Cons.prems by (simp add: nth_append)
    have d: "\<forall>j<Suc i. (pre @ [y]) ! j \<le> bv"
      using Cons.prems False by (auto simp: nth_append less_Suc_eq)
    have e: "\<forall>j<bi. (pre @ [y]) ! j < bv"
      using Cons.prems by (auto simp: nth_append)
    from Cons.IH[OF a b c d e] False show ?thesis by simp
  qed
qed

lemma argmax_row_spec:
  assumes "xs \<noteq> []"
  shows "argmax_row xs < length xs \<and> (\<forall>j<length xs. xs ! j \<le> xs ! argmax_row xs) \<and>
         (\<forall>j<argmax_row xs. xs ! j < xs ! argmax_row xs)"
proof -
  obtain x ys where xs: "xs = x # ys" using assms by (cases xs) auto
  have "argmax_from 0 x 1 ys < length ([x] @ ys) \<and>
   (\<forall>j<length ([x] @ ys). ([x] @ ys) ! j \<le> ([x] @ ys) ! argmax_from 0 x 1 ys) \<and>
   (\<forall>j<argmax_from 0 x 1 ys. ([x] @ ys) ! j < ([x] @ ys) ! argmax_from 0 x 1 ys)"
    by (rule argmax_from_spec) auto
  then show ?thesis by (simp add: xs argmax_row_def)
qed

lemma length_row_of:
  "r < m \<Longrightarrow> length xs = m * n \<Longrightarrow> length (row_of n xs r) = n"
proof -
  assume a: "r < m" "length xs = m * n"
  have "r * n + n \<le> m * n"
  proof -
    have "Suc r \<le> m" using a by simp
    then have "Suc r * n \<le> m * n" by (rule mult_le_mono1)
    then show ?thesis by (simp add: add.commute)
  qed
  then show ?thesis using a by (simp add: row_of_def)
qed

lemma prod_list_butlast_last:
  "s \<noteq> [] \<Longrightarrow> prod_list (butlast s) * last s = prod_list s"
  by (induction s rule: rev_induct) auto

lemma argmax_last_is_argmax:
  assumes "argmax_last x = Inr p" and "wf_tensor x" and "shape x \<noteq> []"
  shows "is_argmax_of p x \<and> shape p = butlast (shape x) \<and> wf_tensor p"
proof -
  let ?n = "last (shape x)" and ?m = "prod_list (butlast (shape x))"
  have n: "0 < ?n" using assms by (auto simp: argmax_last_def split: if_splits)
  have p: "p = \<lparr>shape = butlast (shape x),
                data = map (\<lambda>r. int (argmax_row (row_of ?n (data x) r))) [0..<?m]\<rparr>"
    using assms by (auto simp: argmax_last_def split: if_splits)
  have len: "length (data x) = ?m * ?n"
    using assms by (simp add: wf_tensor_def numel_def prod_list_butlast_last)
  have rows: "\<And>r. r < ?m \<Longrightarrow> length (row_of ?n (data x) r) = ?n"
    using len by (rule length_row_of[rotated])
  have spec: "0 \<le> int (argmax_row (row_of ?n (data x) r)) \<and>
        argmax_row (row_of ?n (data x) r) < ?n \<and>
        (\<forall>j<?n. row_of ?n (data x) r ! j \<le> row_of ?n (data x) r ! argmax_row (row_of ?n (data x) r)) \<and>
        (\<forall>j<argmax_row (row_of ?n (data x) r).
            row_of ?n (data x) r ! j < row_of ?n (data x) r ! argmax_row (row_of ?n (data x) r))"
    if "r < ?m" for r
  proof -
    have l: "length (row_of ?n (data x) r) = ?n" using that by (rule rows)
    then have "row_of ?n (data x) r \<noteq> []" using n by auto
    from argmax_row_spec[OF this] show ?thesis by (simp add: l)
  qed
  show ?thesis
    using n assms(3) spec
    by (simp add: is_argmax_of_def p list_all_iff wf_tensor_def numel_def Let_def)
qed

section \<open>The life of an instance: what never changes\<close>

lemma step_fields:
  "self_hparams (step m ev) = self_hparams m \<and> self_encoder (step m ev) = self_encoder m \<and>
   self_dropout_layer (step m ev) = self_dropout_layer m \<and>
   self_num_classes (step m ev) = self_num_classes m \<and>
   self_logits_layer (step m ev) = self_logits_layer m \<and> is_binary (step m ev) = is_binary m"
  by (cases ev) simp_all

lemma run_fields:
  "self_hparams (run m evs) = self_hparams m \<and> self_encoder (run m evs) = self_encoder m \<and>
   self_dropout_layer (run m evs) = self_dropout_layer m \<and>
   self_num_classes (run m evs) = self_num_classes m \<and>
   self_logits_layer (run m evs) = self_logits_layer m \<and> is_binary (run m evs) = is_binary m"
  unfolding run_def
proof (induction evs arbitrary: m)
  case Nil
  show ?case by simp
next
  case (Cons ev evs)
  show ?case using Cons.IH[of "step m ev"] step_fields[of m ev] by simp
qed

section \<open>Construction\<close>

lemma init_fields:
  assumes "init hp enc w0 b0 = Inr m"
  shows "self_hparams m = hp \<and> self_encoder m = enc \<and> self_num_classes m = num_classes hp \<and>
         (is_binary m \<longleftrightarrow> num_classes hp = 1 \<or> (num_classes hp \<le> 0 \<and> encoder_dim hp = 1)) \<and>
         training m \<and> dropout_p (self_dropout_layer m) = dropout hp \<and>
         0 \<le> dropout hp \<and> dropout hp \<le> 1"
  using assms
  by (auto simp: init_def Dropout_def split: sum.splits if_splits)

lemma init_layer_none:
  assumes "init hp enc w0 b0 = Inr m" and "num_classes hp \<le> 0"
  shows "self_logits_layer m = None"
  using assms
  by (auto simp: init_def logits_layer_of_def split: sum.splits if_splits)

lemma Linear_sizes:
  assumes "Linear n_in n_out kwargs w0 b0 = Inr l"
  shows "int (in_features l) = n_in \<and> int (out_features l) = n_out"
  using assms by (auto simp: Linear_def split: list.splits if_splits)

lemma init_layer_some:
  assumes "init hp enc w0 b0 = Inr m" and "0 < num_classes hp"
  shows "\<exists>l. self_logits_layer m = Some l \<and> int (out_features l) = num_classes hp \<and>
             (clas_strategy hp \<noteq> ''all_time'' \<longrightarrow> int (in_features l) = enc_output_size enc) \<and>
             (clas_strategy hp = ''all_time'' \<longrightarrow>
                (\<exists>ml. max_seq_length hp = Some ml \<and> int (in_features l) = enc_output_size enc * ml))"
proof -
  from assms obtain kw l where l: "self_logits_layer m = Some l"
    "new_logits_layer hp enc kw w0 b0 = Inr l"
    by (auto simp: init_def logits_layer_of_def split: sum.splits)
  show ?thesis
  proof (cases "clas_strategy hp = ''all_time''")
    case True
    with l(2) obtain ml where
      "max_seq_length hp = Some ml"
      "Linear (enc_output_size enc * ml) (num_classes hp) kw w0 b0 = Inr l"
      by (auto simp: new_logits_layer_def split: option.splits)
    then show ?thesis using l(1) True Linear_sizes by auto
  next
    case False
    with l(2) have "Linear (enc_output_size enc) (num_classes hp) kw w0 b0 = Inr l"
      by (simp add: new_logits_layer_def)
    then show ?thesis using l(1) False Linear_sizes by auto
  qed
qed

section \<open>Properties of the layers\<close>

lemma length_concat_rows:
  "(\<And>r. length (f r) = n) \<Longrightarrow> length (concat (map f [0..<m])) = m * n"
  by (induction m) (simp_all add: length_concat)

lemma linear_forward_shape:
  assumes "linear_forward l x = Inr y"
  shows "shape y = butlast (shape x) @ [out_features l] \<and> wf_tensor y"
proof -
  have y: "y = \<lparr>shape = butlast (shape x) @ [out_features l],
                data = concat (map (\<lambda>r. linear_row l (row_of (in_features l) (data x) r))
                                   [0..<prod_list (butlast (shape x))])\<rparr>"
    using assms by (auto simp: linear_forward_def split: if_splits)
  have "length (concat (map (\<lambda>r. linear_row l (row_of (in_features l) (data x) r))
                                   [0..<prod_list (butlast (shape x))]))
        = prod_list (butlast (shape x)) * out_features l"
    by (rule length_concat_rows) (simp add: linear_row_def)
  then show ?thesis by (simp add: y wf_tensor_def numel_def)
qed

lemma linear_forward_returns:
  assumes "shape x \<noteq> []" and "last (shape x) = in_features l"
  shows "\<exists>y. linear_forward l x = Inr y"
  using assms by (simp add: linear_forward_def)

lemma dropout_forward_shape:
  "shape (dropout_forward d train noise x) = shape x \<and>
   length (data (dropout_forward d train noise x)) = length (data x)"
  by (simp add: dropout_forward_def)

section \<open>Properties of the prediction stage\<close>

lemma gt0_long_threshold: "is_threshold_of (gt0_long x) x"
  by (simp add: is_threshold_of_def gt0_long_def list_all_iff)

lemma flatten_threshold:
  "is_threshold_of p x \<Longrightarrow> is_threshold_of (flatten p) (flatten x)"
  by (simp add: is_threshold_of_def flatten_def numel_def)

lemma flatten_argmax: "is_argmax_of p x \<Longrightarrow> is_argmax_of (flatten p) x"
  by (simp add: is_argmax_of_def flatten_def)

lemma argmax_last_returns:
  assumes "shape x \<noteq> []" and "0 < last (shape x)"
  shows "\<exists>p. argmax_last x = Inr p"
  using assms by (simp add: argmax_last_def)

lemma compute_preds_binary:
  assumes "compute_preds strategy True x = Inr (logits, preds)"
  shows "is_threshold_of preds logits"
  using assms gt0_long_threshold flatten_threshold
  by (auto simp: compute_preds_def Let_def split: if_splits)

lemma compute_preds_multiclass:
  assumes "compute_preds strategy False x = Inr (logits, preds)" and "wf_tensor x" and "shape x \<noteq> []"
  shows "logits = x \<and> is_argmax_of preds x \<and>
         shape preds = (if strategy = ''time_wise'' then butlast (shape x)
                        else [prod_list (butlast (shape x))])"
proof -
  from assms(1) obtain p where p: "argmax_last x = Inr p"
    "preds = (if strategy = ''time_wise'' then p else flatten p)" "logits = x"
    by (auto simp: compute_preds_def split: if_splits sum.splits)
  from argmax_last_is_argmax[OF p(1) assms(2,3)]
  have a: "is_argmax_of p x" and s: "shape p = butlast (shape x)" by simp_all
  have "shape (flatten p) = [prod_list (butlast (shape x))]"
    by (simp add: flatten_def numel_def s)
  then show ?thesis using p a s by (simp add: flatten_argmax)
qed


section \<open>Padding and view\<close>

lemma pad_time_rank3:
  assumes "shape x = [B, T, F]" and "wf_tensor x" and "0 \<le> int T + d"
  shows "pad_time x d =
           Inr \<lparr>shape = [B, nat (int T + d), F],
                data = concat (map (\<lambda>r. take (nat (int T + d) * F)
                                         (row_of (T * F) (data x) r @ replicate (nat d * F) 0))
                                   [0..<B])\<rparr>"
  using assms by (simp add: pad_time_def Let_def)

lemma pad_time_chunk_length:
  assumes "length xs = B * (T * F)" and "r < B" and "0 \<le> int T + d"
  shows "length (take (nat (int T + d) * F) (row_of (T * F) xs r @ replicate (nat d * F) 0))
         = nat (int T + d) * F"
proof -
  have l: "length (row_of (T * F) xs r) = T * F"
    using assms(2,1) by (rule length_row_of)
  have "nat (int T + d) \<le> T + nat d" by linarith
  then have "nat (int T + d) * F \<le> (T + nat d) * F" by (rule mult_le_mono1)
  then show ?thesis by (simp add: l add_mult_distrib)
qed

lemma length_concat_rows_upt:
  "(\<And>r. r < m \<Longrightarrow> length (f r) = n) \<Longrightarrow> length (concat (map f [0..<m])) = m * n"
  by (induction m) (simp_all add: length_concat)

lemma pad_time_wf:
  assumes "shape x = [B, T, F]" and "wf_tensor x" and "0 \<le> int T + d"
      and "pad_time x d = Inr y"
  shows "shape y = [B, nat (int T + d), F] \<and> wf_tensor y"
proof -
  have len: "length (data x) = B * (T * F)"
    using assms(1,2) by (simp add: wf_tensor_def numel_def)
  have "length (concat (map (\<lambda>r. take (nat (int T + d) * F)
                                         (row_of (T * F) (data x) r @ replicate (nat d * F) 0))
                                   [0..<B])) = B * (nat (int T + d) * F)"
    by (rule length_concat_rows_upt) (rule pad_time_chunk_length[OF len _ assms(3)])
  then show ?thesis
    using assms(4) pad_time_rank3[OF assms(1,2,3)] by (auto simp: wf_tensor_def numel_def)
qed

lemma view2_rank3:
  assumes "shape y = [B, M, F]" and "0 < F" and "0 < M"
  shows "view2 y (int F * int M) = Inr \<lparr>shape = [B, F * M], data = data y\<rparr>"
proof -
  have d: "nat (int F * int M) = F * M" by (simp add: nat_mult_distrib)
  have "B * M * F = B * (F * M)" by simp
  then have "numel y = B * (F * M)" using assms(1) by (simp add: numel_def)
  moreover have "0 < int F * int M" using assms(2,3) by simp
  ultimately show ?thesis using assms(2,3) by (simp add: view2_def d not_le)
qed

lemma view2_wf:
  assumes "view2 x d = Inr y" and "wf_tensor x"
  shows "wf_tensor y \<and> length (shape y) = 2 \<and> 0 < last (shape y)"
  using assms
  by (auto simp: view2_def wf_tensor_def numel_def split: if_splits)

section \<open>The source of the logits\<close>

lemma logits_source_all_time:
  assumes "encoder_contract (self_encoder m) inputs sl seg B T F"
      and "max_seq_length (self_hparams m) = Some ml" and "1 \<le> ml" and "1 \<le> F"
  shows "logits_source m ''all_time'' inputs
           (fst (encode (self_encoder m) inputs sl seg)) (snd (encode (self_encoder m) inputs sl seg))
         = Inr \<lparr>shape = [B, F * nat ml],
                data = concat (map (\<lambda>r. take (nat ml * F)
                                 (row_of (T * F) (data (fst (encode (self_encoder m) inputs sl seg))) r
                                    @ replicate (nat (ml - int T) * F) 0))
                               [0..<B])\<rparr>"
proof -
  let ?eo = "fst (encode (self_encoder m) inputs sl seg)"
  have c: "shape inputs = [B, T]" "enc_output_size (self_encoder m) = int F"
    "shape ?eo = [B, T, F]" "wf_tensor ?eo"
    using assms(1) by (simp_all add: encoder_contract_def)
  have nn: "0 \<le> int T + (ml - int T)" using assms(3) by simp
  have t': "nat (int T + (ml - int T)) = nat ml" by simp
  let ?y = "\<lparr>shape = [B, nat ml, F],
                data = concat (map (\<lambda>r. take (nat ml * F)
                                         (row_of (T * F) (data ?eo) r @ replicate (nat (ml - int T) * F) 0))
                                   [0..<B])\<rparr>"
  have p: "pad_time ?eo (ml - int T) = Inr ?y"
    using pad_time_rank3[OF c(3,4) nn] by (simp only: t')
  have "view2 ?y (int F * int (nat ml)) = Inr \<lparr>shape = [B, F * nat ml], data = data ?y\<rparr>"
    by (rule view2_rank3) (use assms in auto)
  then have v: "view2 ?y (int F * ml) = Inr \<lparr>shape = [B, F * nat ml], data = data ?y\<rparr>"
    using assms(3) by simp
  show ?thesis
    using assms(2) c(1,2) p v by (simp add: logits_source_def Let_def)
qed

lemma logits_source_wf:
  assumes "encoder_contract (self_encoder m) inputs sl seg B T F"
      and "logits_source m s inputs
             (fst (encode (self_encoder m) inputs sl seg)) (snd (encode (self_encoder m) inputs sl seg))
           = Inr x"
  shows "wf_tensor x \<and> shape x \<noteq> [] \<and>
         (s = ''time_wise'' \<longrightarrow> shape x = [B, T, F]) \<and>
         (s = ''cls_time'' \<longrightarrow> shape x = [B, F]) \<and>
         (s = ''all_time'' \<longrightarrow> length (shape x) = 2 \<and> 0 < last (shape x))"
proof -
  let ?eo = "fst (encode (self_encoder m) inputs sl seg)"
  let ?po = "snd (encode (self_encoder m) inputs sl seg)"
  have c: "shape inputs = [B, T]" "shape ?eo = [B, T, F]" "wf_tensor ?eo"
    "shape ?po = [B, F]" "wf_tensor ?po"
    using assms(1) by (simp_all add: encoder_contract_def)
  consider "s = ''time_wise''" | "s = ''cls_time''" | "s = ''all_time''"
    using assms(2) by (auto simp: logits_source_def split: if_splits)
  then show ?thesis
  proof cases
    case 1
    then show ?thesis using assms(2) c by (auto simp: logits_source_def)
  next
    case 2
    then show ?thesis using assms(2) c by (auto simp: logits_source_def)
  next
    case 3
    with assms(2) obtain ml y where y: "pad_time ?eo (ml - int T) = Inr y"
      "view2 y (enc_output_size (self_encoder m) * ml) = Inr x"
      using c(1) by (auto simp: logits_source_def Let_def split: option.splits if_splits sum.splits)
    have nn: "0 \<le> int T + (ml - int T)"
      using y(1) c(2) by (auto simp: pad_time_def split: if_splits)
    have "wf_tensor y" using pad_time_wf[OF c(2,3) nn y(1)] by simp
    from view2_wf[OF y(2) this] 3 show ?thesis by auto
  qed
qed

section \<open>forward, stage by stage\<close>

lemma forward_stages:
  "forward m noise inputs sl seg =
     (case logits_source m (clas_strategy (self_hparams m)) inputs
             (fst (encode (self_encoder m) inputs sl seg))
             (snd (encode (self_encoder m) inputs sl seg)) of
        Inl e \<Rightarrow> Inl e
      | Inr x \<Rightarrow>
          (case apply_logits_layer m noise x of
             Inl e \<Rightarrow> Inl e
           | Inr y \<Rightarrow> compute_preds (clas_strategy (self_hparams m)) (is_binary m) y))"
  by (simp add: forward_def Let_def split: prod.splits)

lemma apply_logits_layer_wf:
  assumes "apply_logits_layer m noise x = Inr y" and "wf_tensor x" and "shape x \<noteq> []"
  shows "wf_tensor y \<and> shape y \<noteq> []"
proof (cases "self_logits_layer m")
  case None
  then show ?thesis using assms by (simp add: apply_logits_layer_def)
next
  case (Some l)
  then have "linear_forward l (dropout_forward (self_dropout_layer m) (training m) noise x) = Inr y"
    using assms(1) by (simp add: apply_logits_layer_def)
  from linear_forward_shape[OF this] show ?thesis by simp
qed

lemma apply_logits_layer_none:
  "self_logits_layer m = None \<Longrightarrow> apply_logits_layer m noise x = Inr x"
  by (simp add: apply_logits_layer_def)

lemma apply_logits_layer_some:
  assumes "self_logits_layer m = Some l" and "shape x \<noteq> []" and "last (shape x) = in_features l"
  shows "\<exists>y. apply_logits_layer m noise x = Inr y \<and>
             shape y = butlast (shape x) @ [out_features l] \<and> wf_tensor y"
proof -
  let ?d = "dropout_forward (self_dropout_layer m) (training m) noise x"
  have "shape ?d \<noteq> []" "last (shape ?d) = in_features l"
    using assms(2,3) by (simp_all add: dropout_forward_shape)
  from linear_forward_returns[OF this] obtain y where y: "linear_forward l ?d = Inr y" ..
  from linear_forward_shape[OF y] y assms(1) show ?thesis
    by (simp add: apply_logits_layer_def dropout_forward_shape)
qed

lemma compute_preds_multiclass_returns:
  assumes "shape x \<noteq> []" and "0 < last (shape x)"
  shows "\<exists>p. compute_preds s False x = Inr (x, p)"
  using argmax_last_returns[OF assms] by (auto simp: compute_preds_def)

lemma compute_preds_returns:
  assumes "binary \<or> (shape x \<noteq> [] \<and> 0 < last (shape x))"
  shows "\<exists>l p. compute_preds s binary x = Inr (l, p)"
proof (cases binary)
  case True
  then show ?thesis by (simp add: compute_preds_def Let_def)
next
  case False
  then show ?thesis using assms compute_preds_multiclass_returns[of x s] by auto
qed

lemma forward_by_flag:
  assumes "encoder_contract (self_encoder m) inputs sl seg B T F"
      and "forward m noise inputs sl seg = Inr (logits, preds)"
  shows "if is_binary m then is_threshold_of preds logits
         else is_argmax_of preds logits \<and> wf_tensor logits"
proof -
  from assms(2) obtain x y where
    x: "logits_source m (clas_strategy (self_hparams m)) inputs
             (fst (encode (self_encoder m) inputs sl seg))
             (snd (encode (self_encoder m) inputs sl seg)) = Inr x"
    and y: "apply_logits_layer m noise x = Inr y"
    and p: "compute_preds (clas_strategy (self_hparams m)) (is_binary m) y = Inr (logits, preds)"
    by (auto simp: forward_stages split: sum.splits)
  from logits_source_wf[OF assms(1) x] have "wf_tensor x" "shape x \<noteq> []" by simp_all
  from apply_logits_layer_wf[OF y this] have wy: "wf_tensor y" "shape y \<noteq> []" by simp_all
  show ?thesis
  proof (cases "is_binary m")
    case True
    then show ?thesis using p compute_preds_binary by simp
  next
    case False
    then have "compute_preds (clas_strategy (self_hparams m)) False y = Inr (logits, preds)"
      using p by simp
    from compute_preds_multiclass[OF this wy] wy False show ?thesis by simp
  qed
qed

text \<open>What a forward call returns when the logits before the predictions are known.\<close>

lemma forward_multiclass_shapes:
  assumes "logits_source m (clas_strategy (self_hparams m)) inputs
             (fst (encode (self_encoder m) inputs sl seg))
             (snd (encode (self_encoder m) inputs sl seg)) = Inr x"
      and "apply_logits_layer m noise x = Inr y"
      and "wf_tensor y" and "shape y \<noteq> []" and "0 < last (shape y)" and "\<not> is_binary m"
  shows "\<exists>preds. forward m noise inputs sl seg = Inr (y, preds) \<and> is_argmax_of preds y \<and>
           shape preds = (if clas_strategy (self_hparams m) = ''time_wise'' then butlast (shape y)
                          else [prod_list (butlast (shape y))])"
proof -
  from compute_preds_multiclass_returns[OF assms(4,5)] obtain p where
    p: "compute_preds (clas_strategy (self_hparams m)) False y = Inr (y, p)" by blast
  from compute_preds_multiclass[OF p assms(3,4)] p assms(1,2,6) show ?thesis
    by (auto simp: forward_stages)
qed

lemma logits_source_time_wise: "logits_source m ''time_wise'' inputs eo po = Inr eo"
  by (simp add: logits_source_def)

lemma logits_source_cls_time: "logits_source m ''cls_time'' inputs eo po = Inr po"
  by (simp add: logits_source_def)

section \<open>Instances of the concrete encoder\<close>

lemma init_example_encoder:
  assumes "0 \<le> dropout hp" and "dropout hp \<le> 1" and "logit_layer_kwargs hp = KwNone"
      and "clas_strategy hp \<noteq> ''all_time''"
  shows "\<exists>m. init hp example_encoder w0 b0 = Inr m \<and> self_hparams m = hp"
  using assms
  by (auto simp: init_def Dropout_def logits_layer_of_def new_logits_layer_def Linear_def
                 example_encoder_def)

lemma constructed_fields:
  assumes "init hp enc w0 b0 = Inr m0"
  shows "self_hparams (run m0 evs) = hp" and "self_encoder (run m0 evs) = enc"
    and "is_binary (run m0 evs) \<longleftrightarrow> num_classes hp = 1 \<or> (num_classes hp \<le> 0 \<and> encoder_dim hp = 1)"
    and "dropout_p (self_dropout_layer (run m0 evs)) = dropout hp"
    and "self_logits_layer (run m0 evs) = self_logits_layer m0"
  using init_fields[OF assms] run_fields[of m0 evs] by simp_all

section \<open>More on the stages of forward\<close>




lemma sequence_layer_output:
  assumes "init hp enc w0 b0 = Inr m0"
      and "enc_output_size enc = int F"
      and "clas_strategy hp = ''cls_time'' \<and> D = F \<or>
           clas_strategy hp = ''all_time'' \<and> (\<exists>ml. max_seq_length hp = Some ml \<and> 1 \<le> ml \<and> D = F * nat ml)"
      and "shape x = [B, D]" and "wf_tensor x"
  shows "\<exists>y C. apply_logits_layer (run m0 evs) noise x = Inr y \<and> shape y = [B, C] \<and> wf_tensor y \<and>
               (0 < num_classes hp \<longrightarrow> C = nat (num_classes hp)) \<and>
               (num_classes hp \<le> 0 \<longrightarrow> C = D)"
proof (cases "0 < num_classes hp")
  case True
  from init_layer_some[OF assms(1) True] obtain l where
    l: "self_logits_layer m0 = Some l" "int (out_features l) = num_classes hp"
       "clas_strategy hp \<noteq> ''all_time'' \<longrightarrow> int (in_features l) = enc_output_size enc"
       "clas_strategy hp = ''all_time'' \<longrightarrow>
          (\<exists>ml. max_seq_length hp = Some ml \<and> int (in_features l) = enc_output_size enc * ml)"
    by auto
  have l': "self_logits_layer (run m0 evs) = Some l" using l(1) run_fields[of m0 evs] by simp
  have "in_features l = D"
  proof (cases "clas_strategy hp = ''all_time''")
    case False
    then show ?thesis using l(3) assms(2,3) by auto
  next
    case True
    with assms(3) l(4) obtain ml where
      ml: "max_seq_length hp = Some ml" "1 \<le> ml" "D = F * nat ml"
          "int (in_features l) = enc_output_size enc * ml"
      by auto
    have e: "int (F * nat ml) = int F * ml" using ml(2) by simp
    have "int (in_features l) = int (F * nat ml)" by (simp only: e ml(4) assms(2))
    then have "in_features l = F * nat ml" by (simp only: of_nat_eq_iff)
    then show ?thesis using ml(3) by simp
  qed
  then have "shape x \<noteq> []" "last (shape x) = in_features l" using assms(4) by simp_all
  from apply_logits_layer_some[OF l' this, of noise] l(2) assms(4) True show ?thesis by auto
next
  case False
  then have "self_logits_layer (run m0 evs) = None"
    using init_layer_none[OF assms(1)] run_fields[of m0 evs] by simp
  from apply_logits_layer_none[OF this] assms(4,5) False show ?thesis by simp
qed

lemma sequence_source:
  assumes "init hp enc w0 b0 = Inr m0"
      and "encoder_contract enc inputs sl seg B T F"
      and "clas_strategy hp = ''cls_time'' \<and> D = F \<or>
           clas_strategy hp = ''all_time'' \<and> 1 \<le> F \<and>
             (\<exists>ml. max_seq_length hp = Some ml \<and> 1 \<le> ml \<and> D = F * nat ml)"
  shows "\<exists>x. logits_source (run m0 evs) (clas_strategy (self_hparams (run m0 evs))) inputs
               (fst (encode (self_encoder (run m0 evs)) inputs sl seg))
               (snd (encode (self_encoder (run m0 evs)) inputs sl seg)) = Inr x \<and>
             shape x = [B, D] \<and> wf_tensor x"
proof -
  let ?m = "run m0 evs"
  note f = constructed_fields[OF assms(1), of evs]
  have c: "encoder_contract (self_encoder ?m) inputs sl seg B T F" using assms(2) f(2) by simp
  show ?thesis
  proof (cases "clas_strategy hp = ''cls_time''")
    case True
    then have "D = F" using assms(3) by auto
    then show ?thesis using True f(1) c
      by (simp add: logits_source_cls_time encoder_contract_def)
  next
    case False
    with assms(3) obtain ml where a: "clas_strategy hp = ''all_time''" "1 \<le> F"
      "max_seq_length hp = Some ml" "1 \<le> ml" "D = F * nat ml" by auto
    have ml: "max_seq_length (self_hparams ?m) = Some ml" using a(3) f(1) by simp
    note src = logits_source_all_time[OF c ml a(4) a(2)]
    from logits_source_wf[OF c src] src a f(1) show ?thesis by simp
  qed
qed

lemma dropout_forward_inactive:
  assumes "\<not> train \<or> dropout_p d = 0 \<or> dropout_p d = 1"
  shows "dropout_forward d train noise1 x = dropout_forward d train noise2 x"
  using assms by (auto simp: dropout_forward_def)

lemma logits_source_unknown:
  assumes "s \<noteq> ''cls_time''" and "s \<noteq> ''all_time''" and "s \<noteq> ''time_wise''"
  shows "logits_source m s inputs eo po = Inl (ValueError_unknown_strategy s)"
  using assms by (simp add: logits_source_def)


section \<open>forward in multiclass mode\<close>

text \<open>
  C1. In multiclass mode (\<open>num_classes > 1\<close>) the returned predictions are the
  argmax of the returned logits along the class axis. With strategy \<open>cls_time\<close>
  the call returns logits of shape \<open>[B, num_classes]\<close> and predictions of shape
  \<open>[B]\<close>; with strategy \<open>time_wise\<close> it returns logits of shape
  \<open>[B, T, num_classes]\<close> and predictions of shape \<open>[B, T]\<close>. This holds for an
  instance at any moment of its life, in training and in evaluation mode, and
  for every dropout draw.
\<close>

theorem forward_multiclass:
  assumes "init hp enc w0 b0 = Inr m0" and "1 < num_classes hp"
      and "encoder_contract enc inputs sl seg B T F"
  shows "(clas_strategy hp = ''cls_time'' \<longrightarrow>
            (\<exists>logits preds. forward (run m0 evs) noise inputs sl seg = Inr (logits, preds) \<and>
               shape logits = [B, nat (num_classes hp)] \<and> shape preds = [B] \<and>
               is_argmax_of preds logits)) \<and>
         (clas_strategy hp = ''time_wise'' \<longrightarrow>
            (\<exists>logits preds. forward (run m0 evs) noise inputs sl seg = Inr (logits, preds) \<and>
               shape logits = [B, T, nat (num_classes hp)] \<and> shape preds = [B, T] \<and>
               is_argmax_of preds logits)) \<and>
         (\<forall>logits preds. forward (run m0 evs) noise inputs sl seg = Inr (logits, preds) \<longrightarrow>
            wf_tensor logits \<and> is_argmax_of preds logits)"
proof -
  let ?m = "run m0 evs"
  let ?eo = "fst (encode (self_encoder ?m) inputs sl seg)"
  let ?po = "snd (encode (self_encoder ?m) inputs sl seg)"
  note f = constructed_fields[OF assms(1), of evs]
  have c: "encoder_contract (self_encoder ?m) inputs sl seg B T F" using assms(3) f(2) by simp
  have nb: "\<not> is_binary ?m" using f(3) assms(2) by simp
  from init_layer_some[OF assms(1)] assms(2) obtain l where
    l: "self_logits_layer ?m = Some l" "int (out_features l) = num_classes hp"
       "clas_strategy hp \<noteq> ''all_time'' \<longrightarrow> int (in_features l) = enc_output_size enc"
    using f(5) by auto
  have out: "out_features l = nat (num_classes hp)" "0 < out_features l"
    using l(2) assms(2) by simp_all
  have shapes: "shape ?eo = [B, T, F]" "shape ?po = [B, F]" "enc_output_size enc = int F"
    using c f(2) by (simp_all add: encoder_contract_def)
  have cls: "\<exists>logits preds. forward ?m noise inputs sl seg = Inr (logits, preds) \<and>
               shape logits = [B, nat (num_classes hp)] \<and> shape preds = [B] \<and>
               is_argmax_of preds logits"
    if s: "clas_strategy hp = ''cls_time''"
  proof -
    have src: "logits_source ?m (clas_strategy (self_hparams ?m)) inputs ?eo ?po = Inr ?po"
      using s f(1) by (simp add: logits_source_cls_time)
    have "in_features l = F" using l(3) s shapes(3) by simp
    then have "shape ?po \<noteq> []" "last (shape ?po) = in_features l" using shapes(2) by simp_all
    from apply_logits_layer_some[OF l(1) this, of noise] obtain y where
      y: "apply_logits_layer ?m noise ?po = Inr y" "shape y = [B, out_features l]" "wf_tensor y"
      using shapes(2) by auto
    have "shape y \<noteq> []" "0 < last (shape y)" using y(2) out(2) by simp_all
    from forward_multiclass_shapes[OF src y(1) y(3) this nb] show ?thesis
      using y(2) out(1) s f(1) by auto
  qed
  have tw: "\<exists>logits preds. forward ?m noise inputs sl seg = Inr (logits, preds) \<and>
               shape logits = [B, T, nat (num_classes hp)] \<and> shape preds = [B, T] \<and>
               is_argmax_of preds logits"
    if s: "clas_strategy hp = ''time_wise''"
  proof -
    have src: "logits_source ?m (clas_strategy (self_hparams ?m)) inputs ?eo ?po = Inr ?eo"
      using s f(1) by (simp add: logits_source_time_wise)
    have "in_features l = F" using l(3) s shapes(3) by simp
    then have "shape ?eo \<noteq> []" "last (shape ?eo) = in_features l" using shapes(1) by simp_all
    from apply_logits_layer_some[OF l(1) this, of noise] obtain y where
      y: "apply_logits_layer ?m noise ?eo = Inr y" "shape y = [B, T, out_features l]" "wf_tensor y"
      using shapes(1) by auto
    have "shape y \<noteq> []" "0 < last (shape y)" using y(2) out(2) by simp_all
    from forward_multiclass_shapes[OF src y(1) y(3) this nb] show ?thesis
      using y(2) out(1) s f(1) by auto
  qed
  have any: "wf_tensor logits \<and> is_argmax_of preds logits"
    if "forward ?m noise inputs sl seg = Inr (logits, preds)" for logits preds
    using forward_by_flag[OF c that] nb by simp
  show ?thesis using cls tw any by blast
qed

text \<open>
  The default configuration (two classes, \<open>cls_time\<close>) on one sequence of two
  tokens, in evaluation mode.
\<close>

theorem forward_multiclass_witness:
  "\<exists>m0. init default_hparams example_encoder example_w0 example_b0 = Inr m0 \<and>
        1 < num_classes default_hparams \<and>
        encoder_contract example_encoder example_inputs None None 1 2 2 \<and>
        clas_strategy default_hparams = ''cls_time'' \<and>
        (\<exists>logits preds.
            forward (run m0 [Train False]) keep_all example_inputs None None = Inr (logits, preds) \<and>
            shape logits = [1, 2] \<and> shape preds = [1] \<and> is_argmax_of preds logits)"
proof -
  obtain m0 where m0: "init default_hparams example_encoder example_w0 example_b0 = Inr m0"
    using init_example_encoder[of default_hparams] by (auto simp: default_hparams_def)
  have n: "1 < num_classes default_hparams" by (simp add: default_hparams_def)
  have c: "encoder_contract example_encoder example_inputs None None 1 2 2" by code_simp
  have s: "clas_strategy default_hparams = ''cls_time''" by (simp add: default_hparams_def)
  from forward_multiclass[OF m0 n c, of "[Train False]" keep_all] s n c m0
  show ?thesis by (simp add: default_hparams_def)
qed

section \<open>forward in binary mode\<close>




section \<open>Sequence-level strategies in multiclass mode\<close>

text \<open>
  C3, as the claim states it, fails: with strategy \<open>cls_time\<close> and two classes,
  the logits returned for one sequence have shape \<open>[1, 2]\<close>, not \<open>[1]\<close>. Only
  the predictions are flattened.
\<close>

theorem forward_cls_time_logits_two_dimensional:
  "shape example_inputs = [1, 2] \<and>
   num_classes default_hparams = 2 \<and> clas_strategy default_hparams = ''cls_time'' \<and>
   construct_and_call default_hparams example_encoder example_w0 example_b0 [Train False]
       keep_all example_inputs None None
     = Inr (\<lparr>shape = [1, 2], data = [- 2, 0]\<rparr>, \<lparr>shape = [1], data = [1]\<rparr>)"
  by code_simp

text \<open>
  C3, amended. With strategy \<open>cls_time\<close> or \<open>all_time\<close> in multiclass mode the
  prediction is the index of the maximal logit along the class axis and the
  predictions are a one-dimensional array of length \<open>B\<close>; the returned logits are
  not flattened and keep the shape \<open>[B, C]\<close>, where \<open>C\<close> is \<open>num_classes\<close> when
  there is a classification layer. For \<open>all_time\<close> the call returns when
  \<open>max_seq_length\<close> is set and at least one and the feature size is positive.
\<close>

theorem forward_sequence_multiclass:
  assumes "init hp enc w0 b0 = Inr m0"
      and "1 < num_classes hp \<or> (num_classes hp \<le> 0 \<and> encoder_dim hp \<noteq> 1)"
      and "encoder_contract enc inputs sl seg B T F"
      and "clas_strategy hp = ''cls_time'' \<or>
           clas_strategy hp = ''all_time'' \<and> 1 \<le> F \<and> (\<exists>ml. max_seq_length hp = Some ml \<and> 1 \<le> ml)"
      and "num_classes hp \<le> 0 \<longrightarrow> 1 \<le> F"
  shows "\<exists>logits preds C.
           forward (run m0 evs) noise inputs sl seg = Inr (logits, preds) \<and>
           shape logits = [B, C] \<and> 0 < C \<and> (1 < num_classes hp \<longrightarrow> C = nat (num_classes hp)) \<and>
           shape preds = [B] \<and> is_argmax_of preds logits"
proof -
  let ?m = "run m0 evs"
  note f = constructed_fields[OF assms(1), of evs]
  have nb: "\<not> is_binary ?m" using f(3) assms(2) by auto
  have F: "enc_output_size enc = int F" using assms(3) by (simp add: encoder_contract_def)
  obtain D where D: "clas_strategy hp = ''cls_time'' \<and> D = F \<or>
           clas_strategy hp = ''all_time'' \<and> 1 \<le> F \<and>
             (\<exists>ml. max_seq_length hp = Some ml \<and> 1 \<le> ml \<and> D = F * nat ml)"
    using assms(4) by auto
  then have D': "clas_strategy hp = ''cls_time'' \<and> D = F \<or>
           clas_strategy hp = ''all_time'' \<and> (\<exists>ml. max_seq_length hp = Some ml \<and> 1 \<le> ml \<and> D = F * nat ml)"
    by auto
  have Dpos: "num_classes hp \<le> 0 \<longrightarrow> 0 < D" using D assms(5) by auto
  from sequence_source[OF assms(1,3) D, of evs] obtain x where
    x: "logits_source ?m (clas_strategy (self_hparams ?m)) inputs
               (fst (encode (self_encoder ?m) inputs sl seg))
               (snd (encode (self_encoder ?m) inputs sl seg)) = Inr x"
       "shape x = [B, D]" "wf_tensor x" by auto
  from sequence_layer_output[OF assms(1) F D' x(2,3), of evs noise] obtain y C where
    y: "apply_logits_layer ?m noise x = Inr y" "shape y = [B, C]" "wf_tensor y"
       "0 < num_classes hp \<longrightarrow> C = nat (num_classes hp)" "num_classes hp \<le> 0 \<longrightarrow> C = D"
    by auto
  have C: "0 < C" using y(4,5) Dpos assms(2) by auto
  have "shape y \<noteq> []" "0 < last (shape y)" using y(2) C by simp_all
  from forward_multiclass_shapes[OF x(1) y(1) y(3) this nb] obtain preds where
    p: "forward ?m noise inputs sl seg = Inr (y, preds)" "is_argmax_of preds y"
       "shape preds = (if clas_strategy (self_hparams ?m) = ''time_wise'' then butlast (shape y)
                          else [prod_list (butlast (shape y))])" by auto
  have "clas_strategy (self_hparams ?m) \<noteq> ''time_wise''" using assms(4) f(1) by auto
  then have "shape preds = [B]" using p(3) y(2) by simp
  then show ?thesis using p(1,2) y(2,4) C by auto
qed

text \<open>
  Strategy \<open>all_time\<close> with \<open>max_seq_length = 3\<close> on a sequence of two tokens.
\<close>

theorem forward_sequence_multiclass_witness:
  "\<exists>m0. init (default_hparams\<lparr>clas_strategy := ''all_time'', max_seq_length := Some 3\<rparr>)
            example_encoder example_w0 example_b0 = Inr m0 \<and>
        encoder_contract example_encoder example_inputs None None 1 2 2 \<and>
        (\<exists>logits preds.
            forward (run m0 [Train False]) keep_all example_inputs None None = Inr (logits, preds) \<and>
            shape logits = [1, 2] \<and> shape preds = [1] \<and> is_argmax_of preds logits)"
proof -
  let ?hp = "default_hparams\<lparr>clas_strategy := ''all_time'', max_seq_length := Some 3\<rparr>"
  have "\<not> isl (init ?hp example_encoder example_w0 example_b0)" by code_simp
  then obtain m0 where m0: "init ?hp example_encoder example_w0 example_b0 = Inr m0"
    by (cases "init ?hp example_encoder example_w0 example_b0") auto
  have n: "1 < num_classes ?hp \<or> (num_classes ?hp \<le> 0 \<and> encoder_dim ?hp \<noteq> 1)"
    by (simp add: default_hparams_def)
  have c: "encoder_contract example_encoder example_inputs None None 1 2 2" by code_simp
  have s: "clas_strategy ?hp = ''cls_time'' \<or>
           clas_strategy ?hp = ''all_time'' \<and> 1 \<le> (2::nat) \<and> (\<exists>ml. max_seq_length ?hp = Some ml \<and> 1 \<le> ml)"
    by simp
  have d: "num_classes ?hp \<le> 0 \<longrightarrow> 1 \<le> (2::nat)" by simp
  from forward_sequence_multiclass[OF m0 n c s d, of "[Train False]" keep_all] c m0
  show ?thesis by (auto simp: default_hparams_def)
qed

section \<open>Sequences longer than max_seq_length\<close>

text \<open>
  C4, as the claim states it, fails: with strategy \<open>all_time\<close>,
  \<open>max_seq_length = 1\<close> and an input of two time steps the pad length is \<open>-1\<close>,
  and the call returns logits and predictions.
\<close>

theorem forward_all_time_longer_input_returns:
  "shape example_inputs = [1, 2] \<and>
   max_seq_length (default_hparams\<lparr>clas_strategy := ''all_time'', max_seq_length := Some 1\<rparr>) = Some 1 \<and>
   construct_and_call (default_hparams\<lparr>clas_strategy := ''all_time'', max_seq_length := Some 1\<rparr>)
       example_encoder example_w0 example_b0 [Train False] keep_all example_inputs None None
     = Inr (\<lparr>shape = [1, 2], data = [- 2, 0]\<rparr>, \<lparr>shape = [1], data = [1]\<rparr>)"
  by code_simp

text \<open>
  C4, amended. With strategy \<open>all_time\<close> and an input whose time dimension \<open>T\<close>
  exceeds \<open>max_seq_length \<ge> 1\<close> (and a positive feature size) the call is not an
  error: the negative pad length removes the time steps after the first
  \<open>max_seq_length\<close> of every sequence, the rest is flattened to
  \<open>[B, F * max_seq_length]\<close>, and the call returns a pair of logits and
  predictions.
\<close>

theorem forward_all_time_longer_input:
  assumes "init hp enc w0 b0 = Inr m0"
      and "encoder_contract enc inputs sl seg B T F"
      and "clas_strategy hp = ''all_time''" and "max_seq_length hp = Some ml"
      and "1 \<le> ml" and "ml < int T" and "1 \<le> F"
  shows "logits_source (run m0 evs) ''all_time'' inputs
           (fst (encode enc inputs sl seg)) (snd (encode enc inputs sl seg))
         = Inr \<lparr>shape = [B, F * nat ml],
                data = concat (map (\<lambda>r. take (nat ml * F)
                                        (row_of (T * F) (data (fst (encode enc inputs sl seg))) r))
                                   [0..<B])\<rparr> \<and>
         (\<exists>logits preds. forward (run m0 evs) noise inputs sl seg = Inr (logits, preds))"
proof -
  let ?m = "run m0 evs"
  note f = constructed_fields[OF assms(1), of evs]
  have c: "encoder_contract (self_encoder ?m) inputs sl seg B T F" using assms(2) f(2) by simp
  have ml: "max_seq_length (self_hparams ?m) = Some ml" using assms(4) f(1) by simp
  have z: "nat (ml - int T) = 0" using assms(6) by simp
  have src: "logits_source ?m ''all_time'' inputs
           (fst (encode enc inputs sl seg)) (snd (encode enc inputs sl seg))
         = Inr \<lparr>shape = [B, F * nat ml],
                data = concat (map (\<lambda>r. take (nat ml * F)
                                        (row_of (T * F) (data (fst (encode enc inputs sl seg))) r))
                                   [0..<B])\<rparr>"
    using logits_source_all_time[OF c ml assms(5,7)] by (simp add: f(2) z)
  have F: "enc_output_size enc = int F" using assms(2) by (simp add: encoder_contract_def)
  have D: "clas_strategy hp = ''cls_time'' \<and> F * nat ml = F \<or>
           clas_strategy hp = ''all_time'' \<and> 1 \<le> F \<and>
             (\<exists>k. max_seq_length hp = Some k \<and> 1 \<le> k \<and> F * nat ml = F * nat k)"
    using assms(3,4,5,7) by simp
  then have D': "clas_strategy hp = ''cls_time'' \<and> F * nat ml = F \<or>
           clas_strategy hp = ''all_time'' \<and>
             (\<exists>k. max_seq_length hp = Some k \<and> 1 \<le> k \<and> F * nat ml = F * nat k)"
    by auto
  from sequence_source[OF assms(1,2) D, of evs] obtain x where
    x: "logits_source ?m (clas_strategy (self_hparams ?m)) inputs
               (fst (encode (self_encoder ?m) inputs sl seg))
               (snd (encode (self_encoder ?m) inputs sl seg)) = Inr x"
       "shape x = [B, F * nat ml]" "wf_tensor x" by auto
  from sequence_layer_output[OF assms(1) F D' x(2,3), of evs noise] obtain y C where
    y: "apply_logits_layer ?m noise x = Inr y" "shape y = [B, C]"
       "0 < num_classes hp \<longrightarrow> C = nat (num_classes hp)" "num_classes hp \<le> 0 \<longrightarrow> C = F * nat ml"
    by auto
  have "0 < F * nat ml" using assms(5,7) by simp
  then have "0 < C" using y(3,4) by (cases "0 < num_classes hp") auto
  then have "is_binary ?m \<or> (shape y \<noteq> [] \<and> 0 < last (shape y))" using y(2) by simp
  from compute_preds_returns[OF this, of "clas_strategy (self_hparams ?m)"] x(1) y(1)
  have "\<exists>logits preds. forward ?m noise inputs sl seg = Inr (logits, preds)"
    by (auto simp: forward_stages)
  then show ?thesis using src by simp
qed

theorem forward_all_time_longer_input_witness:
  "\<exists>m0. init (default_hparams\<lparr>clas_strategy := ''all_time'', max_seq_length := Some 1\<rparr>)
            example_encoder example_w0 example_b0 = Inr m0 \<and>
        encoder_contract example_encoder example_inputs None None 1 2 2 \<and>
        (1::int) < int 2 \<and>
        logits_source (run m0 []) ''all_time'' example_inputs
           (fst (encode example_encoder example_inputs None None))
           (snd (encode example_encoder example_inputs None None))
          = Inr \<lparr>shape = [1, 2], data = [3, - 2]\<rparr> \<and>
        (\<exists>logits preds. forward (run m0 []) keep_all example_inputs None None = Inr (logits, preds))"
proof -
  let ?hp = "default_hparams\<lparr>clas_strategy := ''all_time'', max_seq_length := Some 1\<rparr>"
  have "\<not> isl (init ?hp example_encoder example_w0 example_b0)" by code_simp
  then obtain m0 where m0: "init ?hp example_encoder example_w0 example_b0 = Inr m0"
    by (cases "init ?hp example_encoder example_w0 example_b0") auto
  have c: "encoder_contract example_encoder example_inputs None None 1 2 2" by code_simp
  have d: "concat (map (\<lambda>r. take (nat 1 * 2)
             (row_of (2 * 2) (data (fst (encode example_encoder example_inputs None None))) r)) [0..<1])
           = [3, - 2]" by code_simp
  from forward_all_time_longer_input[OF m0 c, of 1 "[]" keep_all] c m0 d
  show ?thesis by simp
qed

section \<open>Determinism\<close>

text \<open>
  C5, as the claim states it, fails: a new instance is in training mode, and
  with the default dropout rate \<open>0.1\<close> two calls on the same input whose
  dropout draws differ return different logits and different predictions.
\<close>

theorem forward_dropout_draws_differ:
  "construct_and_call default_hparams example_encoder example_w0 example_b0 []
       keep_all example_inputs None None
     = Inr (\<lparr>shape = [1, 2], data = [- (20 / 9), 0]\<rparr>, \<lparr>shape = [1], data = [1]\<rparr>) \<and>
   construct_and_call default_hparams example_encoder example_w0 example_b0 []
       drop_all example_inputs None None
     = Inr (\<lparr>shape = [1, 2], data = [0, 0]\<rparr>, \<lparr>shape = [1], data = [0]\<rparr>) \<and>
   construct_and_call default_hparams example_encoder example_w0 example_b0 []
       keep_all example_inputs None None
     \<noteq> construct_and_call default_hparams example_encoder example_w0 example_b0 []
       drop_all example_inputs None None"
  by code_simp

text \<open>
  C5, amended. For a fixed configuration, fixed weights and an encoder that is a
  function of its inputs, two forward calls on identical inputs return identical
  logits and predictions whenever dropout is inactive: the instance is in
  evaluation mode, or the dropout rate is zero or one, or there is no
  classification layer (\<open>num_classes \<le> 0\<close>).
\<close>

theorem forward_deterministic_dropout_inactive:
  assumes "init hp enc w0 b0 = Inr m0"
      and "\<not> training (run m0 evs) \<or> dropout hp = 0 \<or> dropout hp = 1 \<or> num_classes hp \<le> 0"
  shows "forward (run m0 evs) noise1 inputs sl seg = forward (run m0 evs) noise2 inputs sl seg"
proof -
  let ?m = "run m0 evs"
  note f = constructed_fields[OF assms(1), of evs]
  have eq: "apply_logits_layer ?m noise1 = apply_logits_layer ?m noise2"
  proof
    fix x
    show "apply_logits_layer ?m noise1 x = apply_logits_layer ?m noise2 x"
  proof (cases "num_classes hp \<le> 0")
    case True
    then have "self_logits_layer ?m = None" using init_layer_none[OF assms(1)] f(5) by simp
    then show ?thesis by (simp add: apply_logits_layer_none)
  next
    case False
    then have "\<not> training ?m \<or> dropout_p (self_dropout_layer ?m) = 0 \<or>
               dropout_p (self_dropout_layer ?m) = 1"
      using assms(2) f(4) by simp
    then have "dropout_forward (self_dropout_layer ?m) (training ?m) noise1 x
               = dropout_forward (self_dropout_layer ?m) (training ?m) noise2 x"
      by (rule dropout_forward_inactive)
    then show ?thesis by (simp add: apply_logits_layer_def split: option.splits)
  qed
  qed
  show ?thesis unfolding forward_stages eq by (rule refl)
qed

theorem forward_deterministic_dropout_inactive_witness:
  "\<exists>m0. init default_hparams example_encoder example_w0 example_b0 = Inr m0 \<and>
        \<not> training (run m0 [Train False]) \<and>
        forward (run m0 [Train False]) keep_all example_inputs None None
          = forward (run m0 [Train False]) drop_all example_inputs None None"
proof -
  obtain m0 where m0: "init default_hparams example_encoder example_w0 example_b0 = Inr m0"
    using init_example_encoder[of default_hparams] by (auto simp: default_hparams_def)
  have t: "\<not> training (run m0 [Train False])" by (simp add: run_def)
  then have "\<not> training (run m0 [Train False]) \<or> dropout default_hparams = 0 \<or>
             dropout default_hparams = 1 \<or> num_classes default_hparams \<le> 0" by simp
  from forward_deterministic_dropout_inactive[OF m0 this] m0 t show ?thesis by blast
qed

section \<open>Unknown strategies\<close>

text \<open>
  C6. For a \<open>clas_strategy\<close> other than \<open>cls_time\<close>, \<open>all_time\<close> and
  \<open>time_wise\<close>, construction does not look at the strategy: it succeeds
  exactly when it does for \<open>cls_time\<close>, in particular for a valid dropout rate,
  default keyword arguments and a non-negative encoder size. Every forward call
  on the instance, at any moment of its life, raises the unknown-strategy
  \<^verbatim>\<open>ValueError\<close> and returns nothing.
\<close>

theorem unknown_strategy_fails_at_forward:
  assumes "clas_strategy hp \<noteq> ''cls_time''" and "clas_strategy hp \<noteq> ''all_time''"
      and "clas_strategy hp \<noteq> ''time_wise''"
  shows "(isl (init hp enc w0 b0) \<longleftrightarrow> isl (init (hp\<lparr>clas_strategy := ''cls_time''\<rparr>) enc w0 b0)) \<and>
         (0 \<le> dropout hp \<and> dropout hp \<le> 1 \<and> logit_layer_kwargs hp = KwNone \<and>
          0 \<le> enc_output_size enc \<longrightarrow> \<not> isl (init hp enc w0 b0)) \<and>
         (\<forall>m0. init hp enc w0 b0 = Inr m0 \<longrightarrow>
            forward (run m0 evs) noise inputs sl seg
              = Inl (ValueError_unknown_strategy (clas_strategy hp)))"
proof -
  have n: "new_logits_layer (hp\<lparr>clas_strategy := ''cls_time''\<rparr>) enc
        = new_logits_layer hp enc"
    using assms(2) by (simp add: new_logits_layer_def fun_eq_iff)
  have l: "logits_layer_of (hp\<lparr>clas_strategy := ''cls_time''\<rparr>) enc w0 b0
                = logits_layer_of hp enc w0 b0"
    unfolding logits_layer_of_def n by simp
  have a: "isl (init hp enc w0 b0) \<longleftrightarrow> isl (init (hp\<lparr>clas_strategy := ''cls_time''\<rparr>) enc w0 b0)"
    by (simp add: init_def l split: sum.splits)
  have b: "\<not> isl (init hp enc w0 b0)"
    if "0 \<le> dropout hp \<and> dropout hp \<le> 1 \<and> logit_layer_kwargs hp = KwNone \<and> 0 \<le> enc_output_size enc"
    using that assms(2)
    by (auto simp: init_def Dropout_def logits_layer_of_def new_logits_layer_def Linear_def)
  have c: "forward (run m0 evs) noise inputs sl seg = Inl (ValueError_unknown_strategy (clas_strategy hp))"
    if "init hp enc w0 b0 = Inr m0" for m0
  proof -
    have "self_hparams (run m0 evs) = hp" using constructed_fields(1)[OF that] .
    then show ?thesis using logits_source_unknown[OF assms] by (simp add: forward_stages)
  qed
  show ?thesis using a b c by blast
qed

theorem unknown_strategy_fails_at_forward_witness:
  "\<not> isl (init (default_hparams\<lparr>clas_strategy := ''mean_time''\<rparr>) example_encoder example_w0 example_b0) \<and>
   (\<exists>m0. init (default_hparams\<lparr>clas_strategy := ''mean_time''\<rparr>) example_encoder example_w0 example_b0
            = Inr m0 \<and>
         forward (run m0 []) keep_all example_inputs None None
           = Inl (ValueError_unknown_strategy ''mean_time''))"
proof -
  let ?hp = "default_hparams\<lparr>clas_strategy := ''mean_time''\<rparr>"
  have s: "clas_strategy ?hp \<noteq> ''cls_time''" "clas_strategy ?hp \<noteq> ''all_time''"
    "clas_strategy ?hp \<noteq> ''time_wise''" by simp_all
  note t = unknown_strategy_fails_at_forward[OF s, of example_encoder example_w0 example_b0
      "[]" keep_all example_inputs None None]
  have ok: "0 \<le> dropout ?hp \<and> dropout ?hp \<le> 1 \<and> logit_layer_kwargs ?hp = KwNone \<and>
        0 \<le> enc_output_size example_encoder"
    by (simp add: default_hparams_def example_encoder_def)
  with t have n: "\<not> isl (init ?hp example_encoder example_w0 example_b0)" by blast
  then obtain m0 where m0: "init ?hp example_encoder example_w0 example_b0 = Inr m0"
    by (cases "init ?hp example_encoder example_w0 example_b0") auto
  with t have "forward (run m0 []) keep_all example_inputs None None
           = Inl (ValueError_unknown_strategy ''mean_time'')" by simp
  then show ?thesis using n m0 by blast
qed

section \<open>all_time without max_seq_length\<close>

text \<open>
  C7, as the claim states it, fails: with \<open>num_classes \<le> 0\<close> no classification
  layer is built, so construction with strategy \<open>all_time\<close> and
  \<open>max_seq_length\<close> unset succeeds; the failure comes later, in forward.
\<close>

theorem init_all_time_no_layer_succeeds:
  "clas_strategy (default_hparams\<lparr>clas_strategy := ''all_time'', num_classes := 0\<rparr>) = ''all_time'' \<and>
   max_seq_length (default_hparams\<lparr>clas_strategy := ''all_time'', num_classes := 0\<rparr>) = None \<and>
   \<not> isl (init (default_hparams\<lparr>clas_strategy := ''all_time'', num_classes := 0\<rparr>)
             example_encoder example_w0 example_b0) \<and>
   construct_and_call (default_hparams\<lparr>clas_strategy := ''all_time'', num_classes := 0\<rparr>)
       example_encoder example_w0 example_b0 [] keep_all example_inputs None None
     = Inl TypeError_NoneType_operand"
  by code_simp

text \<open>
  C7, amended. With strategy \<open>all_time\<close> and \<open>max_seq_length\<close> unset:
  when \<open>num_classes > 0\<close> construction fails, and for a valid dropout rate and
  keyword arguments the failure is the \<^verbatim>\<open>TypeError\<close> of computing the input
  dimension \<open>encoder.output_size * max_seq_length\<close>; when \<open>num_classes \<le> 0\<close> (and
  the dropout rate is valid) construction succeeds and every forward call
  fails: on token ids of rank two or more with the \<^verbatim>\<open>TypeError\<close> of computing
  the pad length, and below that with the \<^verbatim>\<open>IndexError\<close> of \<^verbatim>\<open>inputs.shape[1]\<close>.
\<close>

theorem init_all_time_without_max_seq_length:
  assumes "clas_strategy hp = ''all_time''" and "max_seq_length hp = None"
  shows "(0 < num_classes hp \<longrightarrow> isl (init hp enc w0 b0)) \<and>
         (0 < num_classes hp \<and> 0 \<le> dropout hp \<and> dropout hp \<le> 1 \<and>
          logit_layer_kwargs hp \<noteq> KwOther \<longrightarrow>
            init hp enc w0 b0 = Inl TypeError_NoneType_operand) \<and>
         (num_classes hp \<le> 0 \<and> 0 \<le> dropout hp \<and> dropout hp \<le> 1 \<longrightarrow>
            (\<exists>m0. init hp enc w0 b0 = Inr m0 \<and>
                  forward (run m0 evs) noise inputs sl seg
                    = (if length (shape inputs) < 2 then Inl IndexError_shape
                       else Inl TypeError_NoneType_operand)))"
proof -
  have a: "isl (init hp enc w0 b0)" if "0 < num_classes hp"
    using that assms
    by (auto simp: init_def logits_layer_of_def new_logits_layer_def
             split: sum.splits logit_kwargs.splits)
  have b: "init hp enc w0 b0 = Inl TypeError_NoneType_operand"
    if "0 < num_classes hp \<and> 0 \<le> dropout hp \<and> dropout hp \<le> 1 \<and> logit_layer_kwargs hp \<noteq> KwOther"
    using that assms
    by (auto simp: init_def Dropout_def logits_layer_of_def new_logits_layer_def
             split: logit_kwargs.splits)
  have c: "\<exists>m0. init hp enc w0 b0 = Inr m0 \<and>
                  forward (run m0 evs) noise inputs sl seg
                    = (if length (shape inputs) < 2 then Inl IndexError_shape
                       else Inl TypeError_NoneType_operand)"
    if h: "num_classes hp \<le> 0 \<and> 0 \<le> dropout hp \<and> dropout hp \<le> 1"
  proof -
    from h obtain m0 where m0: "init hp enc w0 b0 = Inr m0"
      by (auto simp: init_def Dropout_def logits_layer_of_def)
    have "self_hparams (run m0 evs) = hp" using constructed_fields(1)[OF m0] .
    then have "forward (run m0 evs) noise inputs sl seg
                 = (if length (shape inputs) < 2 then Inl IndexError_shape
                    else Inl TypeError_NoneType_operand)"
      using assms by (simp add: forward_stages logits_source_def)
    then show ?thesis using m0 by blast
  qed
  show ?thesis using a b c by blast
qed

text \<open>
  The default configuration with strategy \<open>all_time\<close> (two classes): construction
  fails. The same with \<open>num_classes = 0\<close>: construction succeeds and forward
  fails, on token ids of rank two and of rank one.
\<close>

theorem init_all_time_without_max_seq_length_witness:
  "clas_strategy (default_hparams\<lparr>clas_strategy := ''all_time''\<rparr>) = ''all_time'' \<and>
   max_seq_length (default_hparams\<lparr>clas_strategy := ''all_time''\<rparr>) = None \<and>
   0 < num_classes (default_hparams\<lparr>clas_strategy := ''all_time''\<rparr>) \<and>
   init (default_hparams\<lparr>clas_strategy := ''all_time''\<rparr>) example_encoder example_w0 example_b0
     = Inl TypeError_NoneType_operand \<and>
   (\<exists>m0. init (default_hparams\<lparr>clas_strategy := ''all_time'', num_classes := 0\<rparr>)
             example_encoder example_w0 example_b0 = Inr m0 \<and>
         forward (run m0 []) keep_all example_inputs None None
           = Inl TypeError_NoneType_operand) \<and>
   (\<exists>m0. init (default_hparams\<lparr>clas_strategy := ''all_time'', num_classes := 0\<rparr>)
             example_encoder example_w0 example_b0 = Inr m0 \<and>
         forward (run m0 []) keep_all example_inputs_rank1 None None = Inl IndexError_shape)"
proof -
  let ?hp = "default_hparams\<lparr>clas_strategy := ''all_time''\<rparr>"
  have s: "clas_strategy ?hp = ''all_time''" "max_seq_length ?hp = None"
    by (simp_all add: default_hparams_def)
  have h: "0 < num_classes ?hp \<and> 0 \<le> dropout ?hp \<and> dropout ?hp \<le> 1 \<and>
          logit_layer_kwargs ?hp \<noteq> KwOther" by (simp add: default_hparams_def)
  from init_all_time_without_max_seq_length[OF s, of example_encoder example_w0 example_b0] h s
  have first: "clas_strategy ?hp = ''all_time'' \<and> max_seq_length ?hp = None \<and>
      0 < num_classes ?hp \<and>
      init ?hp example_encoder example_w0 example_b0 = Inl TypeError_NoneType_operand"
    by blast
  let ?hq = "default_hparams\<lparr>clas_strategy := ''all_time'', num_classes := 0\<rparr>"
  have t: "clas_strategy ?hq = ''all_time''" "max_seq_length ?hq = None"
    by (simp_all add: default_hparams_def)
  have k: "num_classes ?hq \<le> 0 \<and> 0 \<le> dropout ?hq \<and> dropout ?hq \<le> 1"
    by (simp add: default_hparams_def)
  have r2: "\<not> length (shape example_inputs) < 2" by (simp add: example_inputs_def)
  have r1: "length (shape example_inputs_rank1) < 2" by (simp add: example_inputs_rank1_def)
  from init_all_time_without_max_seq_length[OF t, of example_encoder example_w0 example_b0
         "[]" keep_all example_inputs None None] k r2
  have second: "\<exists>m0. init ?hq example_encoder example_w0 example_b0 = Inr m0 \<and>
         forward (run m0 []) keep_all example_inputs None None = Inl TypeError_NoneType_operand"
    by auto
  from init_all_time_without_max_seq_length[OF t, of example_encoder example_w0 example_b0
         "[]" keep_all example_inputs_rank1 None None] k r1
  have third: "\<exists>m0. init ?hq example_encoder example_w0 example_b0 = Inr m0 \<and>
         forward (run m0 []) keep_all example_inputs_rank1 None None = Inl IndexError_shape"
    by auto
  from first second third show ?thesis by blast
qed

section \<open>The output-size query\<close>

text \<open>
  C8. For each of the three strategies \<open>cls_time\<close>, \<open>all_time\<close> and \<open>time_wise\<close>
  alike, the output-size query raises an error exactly when \<open>num_classes < 1\<close>
  (the \<^verbatim>\<open>NameError\<close> of the source); otherwise it returns \<open>num_classes\<close> when that
  is greater than one and \<open>1\<close> when it is one.
\<close>

theorem output_size_known_strategy:
  assumes "clas_strategy (self_hparams self) = ''cls_time'' \<or>
           clas_strategy (self_hparams self) = ''all_time'' \<or>
           clas_strategy (self_hparams self) = ''time_wise''"
  shows "(isl (output_size self) \<longleftrightarrow> num_classes (self_hparams self) < 1) \<and>
         (num_classes (self_hparams self) < 1 \<longrightarrow> output_size self = Inl NameError_logit_dim) \<and>
         (1 < num_classes (self_hparams self) \<longrightarrow>
            output_size self = Inr (num_classes (self_hparams self))) \<and>
         (num_classes (self_hparams self) = 1 \<longrightarrow> output_size self = Inr 1)"
  using assms by (auto simp: output_size_def Let_def)

text \<open>The default configuration with five classes: the query returns five.\<close>

theorem output_size_known_strategy_witness:
  "\<exists>m. init (default_hparams\<lparr>num_classes := 5\<rparr>) example_encoder example_w0 example_b0 = Inr m \<and>
       clas_strategy (self_hparams m) = ''cls_time'' \<and>
       \<not> isl (output_size m) \<and> output_size m = Inr 5"
proof -
  obtain m where m:
    "init (default_hparams\<lparr>num_classes := 5\<rparr>) example_encoder example_w0 example_b0 = Inr m"
    "self_hparams m = default_hparams\<lparr>num_classes := 5\<rparr>"
    using init_example_encoder[of "default_hparams\<lparr>num_classes := 5\<rparr>"]
    by (auto simp: default_hparams_def)
  have s: "clas_strategy (self_hparams m) = ''cls_time''"
    by (simp add: m default_hparams_def)
  then have "clas_strategy (self_hparams m) = ''cls_time'' \<or>
             clas_strategy (self_hparams m) = ''all_time'' \<or>
             clas_strategy (self_hparams m) = ''time_wise''"
    by simp
  from output_size_known_strategy[OF this] m s show ?thesis
    by (simp add: default_hparams_def)
qed

section \<open>The binary flag\<close>



section \<open>The output-size query with an unknown strategy\<close>

text \<open>
  C10. For an instance with \<open>num_classes \<ge> 1\<close> whose strategy is none of
  \<open>cls_time\<close>, \<open>all_time\<close>, \<open>time_wise\<close>, the output-size query returns no value: no
  branch assigns \<^verbatim>\<open>logit_dim\<close>, and the \<^verbatim>\<open>return\<close> fails with the
  undefined-variable error.
\<close>

theorem output_size_unknown_strategy:
  assumes "1 \<le> num_classes (self_hparams self)"
      and "clas_strategy (self_hparams self) \<noteq> ''cls_time''"
      and "clas_strategy (self_hparams self) \<noteq> ''all_time''"
      and "clas_strategy (self_hparams self) \<noteq> ''time_wise''"
  shows "output_size self = Inl UnboundLocalError_logit_dim"
  using assms by (simp add: output_size_def Let_def)

theorem output_size_unknown_strategy_witness:
  "\<exists>m. init (default_hparams\<lparr>clas_strategy := ''mean_time''\<rparr>) example_encoder example_w0 example_b0
          = Inr m \<and>
       1 \<le> num_classes (self_hparams m) \<and>
       output_size m = Inl UnboundLocalError_logit_dim"
proof -
  obtain m where m:
    "init (default_hparams\<lparr>clas_strategy := ''mean_time''\<rparr>) example_encoder example_w0 example_b0
       = Inr m"
    "self_hparams m = default_hparams\<lparr>clas_strategy := ''mean_time''\<rparr>"
    using init_example_encoder[of "default_hparams\<lparr>clas_strategy := ''mean_time''\<rparr>"]
    by (auto simp: default_hparams_def)
  have "output_size m = Inl UnboundLocalError_logit_dim"
    by (rule output_size_unknown_strategy) (simp_all add: m default_hparams_def)
  then show ?thesis using m by (simp add: default_hparams_def)
qed

end
